theory Spec2Isabelle
  imports Main
begin

section \<open>The code editor example: data model\<close>

text \<open>
  The program is \<^verbatim>\<open>examples/code_editor.py\<close>: a Textual application \<^verbatim>\<open>CodeEditor\<close> with a
  directory tree, a \<^verbatim>\<open>TextArea\<close> and three handlers: \<^verbatim>\<open>on_directory_tree_file_selected\<close>,
  \<^verbatim>\<open>action_save\<close> and \<^verbatim>\<open>action_toggle_files\<close>. Each handler runs to completion on the
  application object and the file system; the model passes both explicitly.
\<close>

subsection \<open>Paths\<close>

text \<open>
  A \<^verbatim>\<open>pathlib.Path\<close> on a POSIX system: its anchor (\<^verbatim>\<open>''\<close> for a relative path, \<^verbatim>\<open>'/'\<close> or
  \<^verbatim>\<open>'//'\<close> otherwise) and the components after it. \<open>path_str\<close> is \<^verbatim>\<open>str(path)\<close> and
  \<open>path_name\<close> is \<^verbatim>\<open>path.name\<close>, the final component (empty when there is none).
\<close>

datatype path = Path (anchor: string) (tail: "string list")

fun join :: "string \<Rightarrow> string list \<Rightarrow> string" where
  "join sep [] = []"
| "join sep [x] = x"
| "join sep (x # y # ys) = x @ sep @ join sep (y # ys)"

definition path_str :: "path \<Rightarrow> string" where
  "path_str p =
     (if anchor p \<noteq> [] then anchor p @ join ''/'' (tail p)
      else if tail p = [] then ''.'' else join ''/'' (tail p))"

definition path_name :: "path \<Rightarrow> string" where
  "path_name p = (if tail p = [] then [] else last (tail p))"

subsection \<open>Exceptions and outcomes\<close>

text \<open>
  The exceptions a file read or write, or a call of the text widget, can raise. Each of them
  is a subclass of Python's \<^verbatim>\<open>Exception\<close>, the class the handler's \<^verbatim>\<open>except\<close> clause names.
\<close>

datatype exception =
    FileNotFoundError
  | PermissionError
  | IsADirectoryError
  | OSError
  | UnicodeDecodeError
  | UnicodeEncodeError
  | TypeError

text \<open>
  A handler either returns or raises; in both cases the objects it mutated stay as they
  were at that moment, so \<open>Raised\<close> carries the state too.
\<close>

datatype 'a outcome = Returned 'a | Raised exception 'a

fun state_of :: "'a outcome \<Rightarrow> 'a" where
  "state_of (Returned s) = s"
| "state_of (Raised e s) = s"

fun returned :: "'a outcome \<Rightarrow> bool" where
  "returned (Returned s) = True"
| "returned (Raised e s) = False"

text \<open>Two calls in succession: the second runs only when the first returned.\<close>

fun and_then :: "'a outcome \<Rightarrow> ('a \<Rightarrow> 'a outcome) \<Rightarrow> 'a outcome" where
  "and_then (Returned s) f = f s"
| "and_then (Raised e s) f = Raised e s"

subsection \<open>The file system\<close>

text \<open>
  The disk as \<^verbatim>\<open>Path.read_text\<close> and \<^verbatim>\<open>Path.write_text\<close> see it: contents are texts, not
  bytes, and a path stands for the file it resolves to. Reading a path yields its decoded
  text or raises (missing file, no permission, a directory, undecodable bytes). A write
  either replaces the whole content of that one path or raises. \<open>write_fault\<close> says which
  writes the environment refuses, with which exception, and what the refused write leaves
  of the file: \<open>None\<close> when it is left as it was (the file could not be opened), \<open>Some f\<close>
  when it is left as \<open>f\<close> (\<^verbatim>\<open>write_text\<close> opens the file for writing, which empties it,
  before it encodes and writes the text). \<open>write_calls\<close> records every call of
  \<^verbatim>\<open>write_text\<close>, in order.
\<close>

datatype disk_file = Text string | Unreadable exception

record filesystem =
  files :: "path \<Rightarrow> disk_file"
  write_fault :: "path \<Rightarrow> string \<Rightarrow> (exception \<times> disk_file option) option"
  write_calls :: "(path \<times> string) list"

definition read_text :: "filesystem \<Rightarrow> path \<Rightarrow> exception + string" where
  "read_text fs p = (case files fs p of Text t \<Rightarrow> Inr t | Unreadable e \<Rightarrow> Inl e)"

definition write_text :: "filesystem \<Rightarrow> path \<Rightarrow> string \<Rightarrow> exception option \<times> filesystem" where
  "write_text fs p t =
     (let fs = fs\<lparr>write_calls := write_calls fs @ [(p, t)]\<rparr> in
      case write_fault fs p t of
        Some (e, left) \<Rightarrow>
          (Some e, fs\<lparr>files := (files fs)(p := (case left of None \<Rightarrow> files fs p | Some f \<Rightarrow> f))\<rparr>)
      | None \<Rightarrow> (None, fs\<lparr>files := (files fs)(p := Text t)\<rparr>))"

subsection \<open>The application object\<close>

text \<open>
  The \<^verbatim>\<open>TextArea\<close> widget belongs to the toolkit. It keeps a text as a document: the list of
  its lines and one newline style. \<^verbatim>\<open>load_text(text)\<close> builds the document with Python's
  \<^verbatim>\<open>text.splitlines()\<close>, which ends a line at every line boundary (line feed, vertical tab,
  form feed, carriage return, with a carriage return and line feed pair counted once, the
  file, group and record separators, and next line), and appends an empty line when the text
  is empty or ends with a newline. The newline style is the first of \<^verbatim>\<open>"\r\n"\<close>, \<^verbatim>\<open>"\n"\<close>,
  \<^verbatim>\<open>"\r"\<close> that occurs in the text, and \<^verbatim>\<open>"\n"\<close> when none does. The attribute \<^verbatim>\<open>text\<close> is the
  lines joined with the newline style. Characters here are those with a code point below
  256; the two line boundaries beyond them (the Unicode line and paragraph separators) have
  no character in this model.
\<close>

definition is_linebreak :: "char \<Rightarrow> bool" where
  "is_linebreak c \<longleftrightarrow>
     c \<in> {CHR 0x0A, CHR 0x0B, CHR 0x0C, CHR 0x0D, CHR 0x1C, CHR 0x1D, CHR 0x1E, CHR 0x85}"

text \<open>
  \<^verbatim>\<open>str.splitlines\<close>: \<open>splitlines_from cur cs\<close> has read the characters \<open>cur\<close> of the current
  line and goes on with \<open>cs\<close>.
\<close>

fun splitlines_from :: "string \<Rightarrow> string \<Rightarrow> string list" where
  "splitlines_from cur [] = (if cur = [] then [] else [cur])"
| "splitlines_from cur (c # cs) =
     (if c = CHR 0x0D \<and> cs \<noteq> [] \<and> hd cs = CHR 0x0A then cur # splitlines_from [] (tl cs)
      else if is_linebreak c then cur # splitlines_from [] cs
      else splitlines_from (cur @ [c]) cs)"

definition splitlines :: "string \<Rightarrow> string list" where
  "splitlines t = splitlines_from [] t"

text \<open>\<^verbatim>\<open>"\r\n" in text\<close>.\<close>

fun has_crlf :: "string \<Rightarrow> bool" where
  "has_crlf (c # d # cs) = ((c = CHR 0x0D \<and> d = CHR 0x0A) \<or> has_crlf (d # cs))"
| "has_crlf cs = False"

definition detect_newline_style :: "string \<Rightarrow> string" where
  "detect_newline_style t =
     (if has_crlf t then [CHR 0x0D, CHR 0x0A]
      else if CHR 0x0A \<in> set t then [CHR 0x0A]
      else if CHR 0x0D \<in> set t then [CHR 0x0D]
      else [CHR 0x0A])"

definition endswith :: "string \<Rightarrow> string \<Rightarrow> bool" where
  "endswith t suffix \<longleftrightarrow>
     length suffix \<le> length t \<and> drop (length t - length suffix) t = suffix"

text \<open>The lines of the document built from a text, and the text the document gives back.\<close>

definition document_lines :: "string \<Rightarrow> string list" where
  "document_lines t =
     (let lines = splitlines t in
      if endswith t [CHR 0x0D, CHR 0x0A] \<or> endswith t [CHR 0x0A] \<or> endswith t [CHR 0x0D] \<or> t = []
      then lines @ [[]] else lines)"

definition document_text :: "string \<Rightarrow> string" where
  "document_text t = join (detect_newline_style t) (document_lines t)"

text \<open>
  The attributes of the widget the program uses: \<^verbatim>\<open>display\<close>, \<^verbatim>\<open>text\<close> and \<^verbatim>\<open>language\<close>.
\<close>

record text_area =
  display :: bool
  ta_text :: string
  language :: "string option"

text \<open>A notification as \<^verbatim>\<open>App.notify\<close> takes it; the severity defaults to \<^verbatim>\<open>"information"\<close>.\<close>

record notification =
  message :: string
  title :: string
  severity :: string

text \<open>
  The \<^verbatim>\<open>CodeEditor\<close> object. \<open>classes\<close> is the set of CSS classes \<^verbatim>\<open>set_class\<close> acts on and
  \<open>notifications\<close> the notifications emitted so far, oldest first.
\<close>

record code_editor =
  show_tree :: bool
  file_path :: path
  sub_title :: string
  text_area :: text_area
  selected_file :: "path option"
  file_content :: "string option"
  classes :: "string set"
  notifications :: "notification list"

text \<open>
  The two library values the program imports: \<^verbatim>\<open>rich.syntax.Syntax.guess_lexer\<close>, which maps
  a file name and its content to a lexer name, and the list
  \<^verbatim>\<open>textual.widgets.text_area.BUILTIN_LANGUAGES\<close>. Neither is defined in the repository, so
  both are parameters.
\<close>

record library =
  guess_lexer :: "string \<Rightarrow> string \<Rightarrow> string"
  BUILTIN_LANGUAGES :: "string list"

type_synonym world = "code_editor \<times> filesystem"

section \<open>The operations\<close>

text \<open>\<^verbatim>\<open>CodeEditor.__init__(path)\<close>.\<close>

definition init :: "path \<Rightarrow> code_editor" where
  "init p =
     \<lparr>show_tree = True,
      file_path = p,
      sub_title = path_str p,
      text_area = \<lparr>display = False, ta_text = [], language = None\<rparr>,
      selected_file = None,
      file_content = None,
      classes = {},
      notifications = []\<rparr>"

text \<open>\<^verbatim>\<open>self.notify(message=..., title=..., severity=...)\<close>.\<close>

definition notify :: "string \<Rightarrow> string \<Rightarrow> string \<Rightarrow> code_editor \<Rightarrow> code_editor" where
  "notify m t sv self =
     self\<lparr>notifications := notifications self @ [\<lparr>message = m, title = t, severity = sv\<rparr>]\<rparr>"

text \<open>\<^verbatim>\<open>TextArea.load_text(text)\<close>: the widget's text is that of the document built from it.\<close>

definition load_text :: "string \<Rightarrow> text_area \<Rightarrow> text_area" where
  "load_text t ta = ta\<lparr>ta_text := document_text t\<rparr>"

text \<open>
  \<^verbatim>\<open>load_text_area(text, file_path)\<close>: guess the lexer from the path and the text, load
  \<^verbatim>\<open>self.file_content\<close> into the widget (the source passes the attribute, not the parameter),
  then set the language to the lexer when it is a builtin language and to \<^verbatim>\<open>None\<close> otherwise.
  \<^verbatim>\<open>TextArea.load_text\<close> needs a string: with \<^verbatim>\<open>self.file_content\<close> still \<^verbatim>\<open>None\<close> the call raises.
\<close>

fun load_text_area :: "library \<Rightarrow> string \<Rightarrow> path \<Rightarrow> world \<Rightarrow> world outcome" where
  "load_text_area lib text fpath (self, fs) =
     (let lexer = guess_lexer lib (path_str fpath) text in
      case file_content self of
        None \<Rightarrow> Raised TypeError (self, fs)
      | Some c \<Rightarrow>
          let self = self\<lparr>text_area := load_text c (text_area self)\<rparr> in
          if lexer \<in> set (BUILTIN_LANGUAGES lib)
          then Returned (self\<lparr>text_area := (text_area self)\<lparr>language := Some lexer\<rparr>\<rparr>, fs)
          else Returned (self\<lparr>text_area := (text_area self)\<lparr>language := None\<rparr>\<rparr>, fs))"

text \<open>
  \<^verbatim>\<open>on_directory_tree_file_selected(event)\<close>, with \<open>p\<close> the event's path: the selection
  handler, \<^verbatim>\<open>handle_selection\<close> in the specification. \<^verbatim>\<open>event.stop()\<close> only ends the
  bubbling of the message and touches none of the state below. The \<^verbatim>\<open>try\<close> block holds the
  read and the assignment of \<^verbatim>\<open>display\<close>; \<^verbatim>\<open>except Exception\<close> takes every exception of the
  read; the \<^verbatim>\<open>else\<close> branch calls \<open>load_text_area\<close> outside the \<^verbatim>\<open>try\<close>.
\<close>

fun on_directory_tree_file_selected :: "library \<Rightarrow> path \<Rightarrow> world \<Rightarrow> world outcome" where
  "on_directory_tree_file_selected lib p (self, fs) =
     (let self = self\<lparr>selected_file := Some p\<rparr>;
          self = self\<lparr>sub_title := path_str p\<rparr>
      in case read_text fs p of
           Inr t \<Rightarrow>
             let self = self\<lparr>file_content := Some t\<rparr>;
                 self = self\<lparr>text_area := (text_area self)\<lparr>display := True\<rparr>\<rparr>
             in load_text_area lib t p (self, fs)
         | Inl e \<Rightarrow>
             let self = self\<lparr>sub_title := ''ERROR''\<rparr>;
                 self = self\<lparr>text_area := (text_area self)\<lparr>display := False\<rparr>\<rparr>;
                 self = self\<lparr>text_area := (text_area self)\<lparr>language := None\<rparr>\<rparr>;
                 self = notify (path_name p @ '' could not be loaded'') ''File Error'' ''error'' self;
                 self = self\<lparr>selected_file := None\<rparr>
             in Returned (self, fs))"

text \<open>
  \<^verbatim>\<open>watch_show_tree(show_tree)\<close>: \<^verbatim>\<open>set_class(show_tree, "-show-tree")\<close> adds the class when the
  flag is set and removes it otherwise.
\<close>

definition watch_show_tree :: "bool \<Rightarrow> code_editor \<Rightarrow> code_editor" where
  "watch_show_tree b self =
     (if b then self\<lparr>classes := insert ''-show-tree'' (classes self)\<rparr>
      else self\<lparr>classes := classes self - {''-show-tree''}\<rparr>)"

text \<open>
  \<^verbatim>\<open>action_toggle_files()\<close>: flip the reactive attribute; the flip changes its value, so its
  watcher runs.
\<close>

fun action_toggle_files :: "world \<Rightarrow> world outcome" where
  "action_toggle_files (self, fs) =
     (let self = self\<lparr>show_tree := \<not> show_tree self\<rparr>
      in Returned (watch_show_tree (show_tree self) self, fs))"

text \<open>
  \<^verbatim>\<open>action_save()\<close>. A \<^verbatim>\<open>Path\<close> is always truthy, so \<^verbatim>\<open>if self.selected_file\<close> tests for
  \<^verbatim>\<open>None\<close>; the comparison is between the widget's string and the optional
  \<^verbatim>\<open>self.file_content\<close>. An exception of \<^verbatim>\<open>write_text\<close> is not caught.
\<close>

fun action_save :: "world \<Rightarrow> world outcome" where
  "action_save (self, fs) =
     (case selected_file self of
        None \<Rightarrow> Returned (self, fs)
      | Some p \<Rightarrow>
          if Some (ta_text (text_area self)) \<noteq> file_content self
          then (case write_text fs p (ta_text (text_area self)) of
                  (Some e, fs') \<Rightarrow> Raised e (self, fs')
                | (None, fs') \<Rightarrow>
                    let self = self\<lparr>file_content := Some (ta_text (text_area self))\<rparr>;
                        self = notify (path_str p) ''File Saved'' ''information'' self
                    in Returned (self, fs'))
          else Returned (self, fs))"

text \<open>The handlers are unfolded only where a proof asks for it.\<close>

declare load_text_area.simps [simp del]
declare on_directory_tree_file_selected.simps [simp del]
declare action_toggle_files.simps [simp del]
declare action_save.simps [simp del]

section \<open>A concrete session\<close>

text \<open>
  Concrete values on which the theorems below are instantiated: a library that knows
  Python and JSON files by their suffix, a readable Python file, a file whose bytes do not
  decode, and two disks holding them, the second refusing every write.
\<close>

definition demo_library :: library where
  "demo_library =
     \<lparr>guess_lexer = (\<lambda>name code.
         if ''.py'' = drop (length name - 3) name then ''python''
         else if ''.json'' = drop (length name - 5) name then ''json''
         else if ''.mk'' = drop (length name - 3) name then ''make''
         else ''default''),
      BUILTIN_LANGUAGES = [''python'', ''json'', ''markdown'', ''yaml'', ''toml'']\<rparr>"

definition notes_py :: path where
  "notes_py = Path ''/'' [''home'', ''notes.py'']"

definition logo_png :: path where
  "logo_png = Path ''/'' [''home'', ''logo.png'']"

definition rules_mk :: path where
  "rules_mk = Path ''/'' [''home'', ''rules.mk'']"

definition demo_disk :: filesystem where
  "demo_disk =
     \<lparr>files = (\<lambda>p. if p = notes_py then Text ''x = 1''
                    else if p = rules_mk then Text ''all:''
                    else if p = logo_png then Unreadable UnicodeDecodeError
                    else Unreadable FileNotFoundError),
      write_fault = (\<lambda>p t. None),
      write_calls = []\<rparr>"

definition readonly_disk :: filesystem where
  "readonly_disk = demo_disk\<lparr>write_fault := (\<lambda>p t. Some (PermissionError, None))\<rparr>"

text \<open>A text file that holds \<open>a\<close>, a form feed and \<open>b\<close>, and the disk with it.\<close>

definition ff_txt :: path where
  "ff_txt = Path ''/'' [''home'', ''ff.txt'']"

definition formfeed_disk :: filesystem where
  "formfeed_disk =
     demo_disk\<lparr>files := (files demo_disk)(ff_txt := Text [CHR ''a'', CHR 0x0C, CHR ''b''])\<rparr>"

text \<open>The application started on \<^verbatim>\<open>/home\<close>, and the same after \<^verbatim>\<open>notes.py\<close> was opened.\<close>

definition started :: code_editor where
  "started = init (Path ''/'' [''home''])"

definition opened :: code_editor where
  "opened =
     started\<lparr>sub_title := ''/home/notes.py'',
             text_area := \<lparr>display = True, ta_text = ''x = 1'', language = Some ''python''\<rparr>,
             selected_file := Some notes_py,
             file_content := Some ''x = 1''\<rparr>"

text \<open>The user then changes the buffer to \<open>x = 2\<close>.\<close>

definition edited :: code_editor where
  "edited = opened\<lparr>text_area := (text_area opened)\<lparr>ta_text := ''x = 2''\<rparr>\<rparr>"

section \<open>The document of the text widget\<close>

lemma has_crlf_return: "has_crlf t \<Longrightarrow> CHR 0x0D \<in> set t"
  by (induction t rule: has_crlf.induct) auto

lemma endswith_single: "endswith t [x] \<longleftrightarrow> t \<noteq> [] \<and> last t = x"
proof (cases t rule: rev_cases)
  case Nil
  then show ?thesis by (simp add: endswith_def)
next
  case (snoc ys y)
  then show ?thesis by (simp add: endswith_def)
qed

lemma endswith_pair: "endswith t [x, y] \<Longrightarrow> x \<in> set t"
proof -
  assume "endswith t [x, y]"
  then have "drop (length t - 2) t = [x, y]"
    by (simp add: endswith_def numeral_2_eq_2)
  then have "x \<in> set (drop (length t - 2) t)"
    by simp
  then show ?thesis
    by (rule in_set_dropD)
qed

lemma splitlines_from_nonempty:
  "cur \<noteq> [] \<or> cs \<noteq> [] \<Longrightarrow> splitlines_from cur cs \<noteq> []"
  by (induction cs arbitrary: cur) auto

lemma join_cons: "ls \<noteq> [] \<Longrightarrow> join sep (l # ls) = l @ sep @ join sep ls"
  by (cases ls) simp_all

text \<open>
  Splitting a text whose only line boundary is the line feed and joining the lines with line
  feeds gives the text back; the empty last line stands for a final line feed.
\<close>

lemma join_splitlines_from:
  assumes "\<forall>c \<in> set cs. is_linebreak c \<longrightarrow> c = CHR 0x0A"
    and "\<forall>c \<in> set cur. \<not> is_linebreak c"
  shows "join [CHR 0x0A]
           (splitlines_from cur cs @
              (if cur @ cs = [] \<or> last (cur @ cs) = CHR 0x0A then [[]] else [])) = cur @ cs"
  using assms
proof (induction cs arbitrary: cur)
  case Nil
  have "is_linebreak (CHR 0x0A)"
    by (simp add: is_linebreak_def)
  with Nil have "cur \<noteq> [] \<Longrightarrow> last cur \<noteq> CHR 0x0A"
    using last_in_set by metis
  then show ?case
    by auto
next
  case (Cons c cs)
  show ?case
  proof (cases "is_linebreak c")
    case True
    with Cons.prems have c: "c = CHR 0x0A"
      by simp
    let ?rest = "splitlines_from [] cs @ (if [] @ cs = [] \<or> last ([] @ cs) = CHR 0x0A then [[]] else [])"
    have rest: "join [CHR 0x0A] ?rest = [] @ cs"
      using Cons.prems by (intro Cons.IH) simp_all
    have "?rest \<noteq> []"
      using splitlines_from_nonempty [of "[]" cs] by auto
    then have "join [CHR 0x0A] (cur # ?rest) = cur @ [CHR 0x0A] @ join [CHR 0x0A] ?rest"
      by (rule join_cons)
    with rest have joined: "join [CHR 0x0A] (cur # ?rest) = cur @ c # cs"
      using c by simp
    have "splitlines_from cur (c # cs) @
        (if cur @ c # cs = [] \<or> last (cur @ c # cs) = CHR 0x0A then [[]] else []) = cur # ?rest"
      using c True by (cases "cs = []") simp_all
    with joined show ?thesis
      by simp
  next
    case False
    with Cons.prems have "join [CHR 0x0A]
           (splitlines_from (cur @ [c]) cs @
              (if (cur @ [c]) @ cs = [] \<or> last ((cur @ [c]) @ cs) = CHR 0x0A then [[]] else [])) =
           (cur @ [c]) @ cs"
      by (intro Cons.IH) simp_all
    moreover from False have "c \<noteq> CHR 0x0D"
      by (auto simp add: is_linebreak_def)
    ultimately show ?thesis
      using False by simp
  qed
qed

text \<open>The widget gives back unchanged every text whose only line boundary is the line feed.\<close>

lemma document_text_plain:
  assumes "\<forall>c \<in> set t. is_linebreak c \<longrightarrow> c = CHR 0x0A"
  shows "document_text t = t"
proof -
  have cr: "is_linebreak (CHR 0x0D)"
    by (simp add: is_linebreak_def)
  with assms have no_cr: "CHR 0x0D \<notin> set t"
    by auto
  then have style: "detect_newline_style t = [CHR 0x0A]"
    using has_crlf_return [of t] by (auto simp add: detect_newline_style_def)
  have last_cr: "t = [] \<or> last t \<noteq> CHR 0x0D"
    using no_cr by (metis last_in_set)
  have "\<not> endswith t [CHR 0x0D, CHR 0x0A]"
    using no_cr endswith_pair [of t "CHR 0x0D" "CHR 0x0A"] by blast
  moreover have "\<not> endswith t [CHR 0x0D]"
    using last_cr by (simp add: endswith_single)
  ultimately have ends:
    "(endswith t [CHR 0x0D, CHR 0x0A] \<or> endswith t [CHR 0x0A] \<or> endswith t [CHR 0x0D] \<or> t = [])
      \<longleftrightarrow> ([] @ t = [] \<or> last ([] @ t) = CHR 0x0A)"
    by (auto simp add: endswith_single)
  have "document_lines t =
      splitlines_from [] t @ (if [] @ t = [] \<or> last ([] @ t) = CHR 0x0A then [[]] else [])"
    unfolding document_lines_def splitlines_def Let_def ends by simp
  with join_splitlines_from [of t "[]"] assms style show ?thesis
    by (simp add: document_text_def)
qed

text \<open>A form feed ends a line, and the lines come back joined with a line feed.\<close>

lemma document_text_form_feed:
  "document_text [CHR ''a'', CHR 0x0C, CHR ''b''] = [CHR ''a'', CHR 0x0A, CHR ''b'']"
  by (simp add: document_text_def document_lines_def splitlines_def detect_newline_style_def
      is_linebreak_def endswith_def)

lemma document_text_x_1: "document_text ''x = 1'' = ''x = 1''"
  by (rule document_text_plain) (simp add: is_linebreak_def)

section \<open>What each handler computes\<close>

lemma path_str_notes_py: "path_str notes_py = ''/home/notes.py''"
  by (simp add: path_str_def notes_py_def)

lemma path_name_logo_png: "path_name logo_png = ''logo.png''"
  by (simp add: path_name_def logo_png_def)

lemma demo_paths_distinct:
  "notes_py \<noteq> logo_png" "logo_png \<noteq> notes_py"
  "notes_py \<noteq> rules_mk" "rules_mk \<noteq> notes_py"
  "rules_mk \<noteq> logo_png" "logo_png \<noteq> rules_mk"
  by (simp_all add: notes_py_def logo_png_def rules_mk_def)

lemma path_str_ff_txt: "path_str ff_txt = ''/home/ff.txt''"
  by (simp add: path_str_def ff_txt_def)

lemma read_formfeed_disk:
  "read_text formfeed_disk ff_txt = Inr [CHR ''a'', CHR 0x0C, CHR ''b'']"
  by (simp add: read_text_def formfeed_disk_def)

lemma read_demo_disk:
  "read_text demo_disk notes_py = Inr ''x = 1''"
  "read_text demo_disk logo_png = Inl UnicodeDecodeError"
  "read_text demo_disk rules_mk = Inr ''all:''"
  by (simp_all add: read_text_def demo_disk_def demo_paths_distinct)

text \<open>
  \<open>load_text_area\<close> loads \<open>file_content\<close>, whatever its \<open>text\<close> argument is; the argument
  only goes to the lexer guess. The handler passes the text it has just stored in
  \<open>file_content\<close>, so there the two agree.
\<close>

lemma load_text_area_loads_file_content:
  assumes "file_content self = Some c"
  shows "ta_text (text_area (fst (state_of (load_text_area lib text fpath (self, fs))))) =
           document_text c"
  using assms by (simp add: load_text_area.simps load_text_def Let_def)

text \<open>A successful read: the state the handler returns.\<close>

lemma selected_readable:
  assumes "read_text fs p = Inr t"
  shows "on_directory_tree_file_selected lib p (self, fs) =
           Returned
             (self\<lparr>selected_file := Some p,
                    sub_title := path_str p,
                    file_content := Some t,
                    text_area :=
                      (text_area self)
                        \<lparr>display := True,
                         ta_text := document_text t,
                         language :=
                           (if guess_lexer lib (path_str p) t \<in> set (BUILTIN_LANGUAGES lib)
                            then Some (guess_lexer lib (path_str p) t) else None)\<rparr>\<rparr>,
              fs)"
  using assms
  by (simp add: on_directory_tree_file_selected.simps load_text_area.simps load_text_def Let_def)

text \<open>A failed read: the state the handler returns, whatever the exception.\<close>

lemma selected_unreadable:
  assumes "read_text fs p = Inl e"
  shows "on_directory_tree_file_selected lib p (self, fs) =
           Returned
             (self\<lparr>selected_file := None,
                    sub_title := ''ERROR'',
                    text_area := (text_area self)\<lparr>display := False, language := None\<rparr>,
                    notifications :=
                      notifications self @
                        [\<lparr>message = path_name p @ '' could not be loaded'',
                          title = ''File Error'',
                          severity = ''error''\<rparr>]\<rparr>,
              fs)"
  using assms
  by (simp add: on_directory_tree_file_selected.simps Let_def notify_def)

text \<open>Opening \<^verbatim>\<open>notes.py\<close> in the started application gives the state \<open>opened\<close>.\<close>

lemma open_notes_py:
  "on_directory_tree_file_selected demo_library notes_py (started, fs) = Returned (opened, fs)"
  if "read_text fs notes_py = Inr ''x = 1''"
  using selected_readable [OF that, of demo_library started]
  by (simp add: opened_def path_str_notes_py demo_library_def document_text_x_1)

text \<open>Saving: the three ways \<open>action_save\<close> can go when a file is selected.\<close>

lemma save_unmodified:
  assumes "file_content self = Some (ta_text (text_area self))"
  shows "action_save (self, fs) = Returned (self, fs)"
  using assms by (simp add: action_save.simps split: option.split)

lemma save_modified:
  assumes "selected_file self = Some p"
    and "file_content self \<noteq> Some (ta_text (text_area self))"
    and "write_fault fs p (ta_text (text_area self)) = None"
  shows "action_save (self, fs) =
           Returned
             (self\<lparr>file_content := Some (ta_text (text_area self)),
                    notifications :=
                      notifications self @
                        [\<lparr>message = path_str p, title = ''File Saved'', severity = ''information''\<rparr>]\<rparr>,
              fs\<lparr>write_calls := write_calls fs @ [(p, ta_text (text_area self))],
                  files := (files fs)(p := Text (ta_text (text_area self)))\<rparr>)"
proof -
  have "Some (ta_text (text_area self)) \<noteq> file_content self"
    using assms(2) by (simp add: eq_commute)
  with assms(1,3) show ?thesis
    by (simp add: action_save.simps write_text_def notify_def Let_def)
qed

lemma save_refused:
  assumes "selected_file self = Some p"
    and "file_content self \<noteq> Some (ta_text (text_area self))"
    and "write_fault fs p (ta_text (text_area self)) = Some (e, left)"
  shows "action_save (self, fs) =
           Raised e
             (self,
              fs\<lparr>write_calls := write_calls fs @ [(p, ta_text (text_area self))],
                  files := (files fs)(p := (case left of None \<Rightarrow> files fs p | Some f \<Rightarrow> f))\<rparr>)"
proof -
  have "Some (ta_text (text_area self)) \<noteq> file_content self"
    using assms(2) by (simp add: eq_commute)
  with assms(1,3) show ?thesis
    by (cases left) (simp_all add: action_save.simps write_text_def Let_def)
qed

text \<open>
  On the disk that refuses writes, saving the edited buffer raises out of \<open>action_save\<close>:
  the file, \<open>file_content\<close> and the notifications stay as they were.
\<close>

lemma save_on_readonly_disk:
  "action_save (edited, readonly_disk) =
     Raised PermissionError (edited, readonly_disk\<lparr>write_calls := [(notes_py, ''x = 2'')]\<rparr>)"
proof -
  have "selected_file edited = Some notes_py"
    and "file_content edited \<noteq> Some (ta_text (text_area edited))"
    and "write_fault readonly_disk notes_py (ta_text (text_area edited)) = Some (PermissionError, None)"
    by (simp_all add: edited_def opened_def readonly_disk_def)
  from save_refused [OF this]
  have "action_save (edited, readonly_disk) =
      Raised PermissionError
        (edited,
         readonly_disk\<lparr>write_calls := write_calls readonly_disk @ [(notes_py, ta_text (text_area edited))]\<rparr>)"
    by simp
  then show ?thesis
    by (simp add: edited_def opened_def readonly_disk_def demo_disk_def)
qed

text \<open>
  The cases of \<open>action_save\<close>: nothing selected, buffer unmodified, write done, write
  refused.
\<close>

lemma save_cases:
  obtains
    (nothing) "selected_file self = None"
  | (unmodified) "file_content self = Some (ta_text (text_area self))"
  | (written) p where "selected_file self = Some p"
      and "file_content self \<noteq> Some (ta_text (text_area self))"
      and "write_fault fs p (ta_text (text_area self)) = None"
  | (refused) p e left where "selected_file self = Some p"
      and "file_content self \<noteq> Some (ta_text (text_area self))"
      and "write_fault fs p (ta_text (text_area self)) = Some (e, left)"
  by (cases "selected_file self"; cases "file_content self = Some (ta_text (text_area self))";
      cases "write_fault fs (the (selected_file self)) (ta_text (text_area self))") auto

lemma save_nothing_selected:
  assumes "selected_file self = None"
  shows "action_save (self, fs) = Returned (self, fs)"
  using assms by (simp add: action_save.simps)

section \<open>Saving with no file selected\<close>

text \<open>
  C8: in every state in which \<open>selected_file\<close> is absent, \<open>action_save\<close> returns the state it
  was given: the file system (contents and calls of \<^verbatim>\<open>write_text\<close>), the notifications and
  every attribute of the application are unchanged.
\<close>

theorem save_without_selection_is_noop:
  "selected_file self = None \<Longrightarrow> action_save (self, fs) = Returned (self, fs)"
  by (simp add: action_save.simps)

theorem save_without_selection_is_noop_witness:
  "selected_file started = None \<and> action_save (started, demo_disk) = Returned (started, demo_disk)"
proof -
  have none: "selected_file started = None"
    by (simp add: started_def init_def)
  from none save_without_selection_is_noop [OF none, of demo_disk] show ?thesis
    by simp
qed

section \<open>Selecting a readable file\<close>

text \<open>
  C1 says that after a successful load the content of the buffer equals the file's text. The
  buffer holds what the widget's document gives back for that text: selecting a file that
  holds \<open>a\<close>, a form feed and \<open>b\<close> leaves \<open>a\<close>, a line feed and \<open>b\<close> in the buffer.
\<close>

theorem buffer_equals_file_text_counterexample:
  "read_text formfeed_disk ff_txt = Inr [CHR ''a'', CHR 0x0C, CHR ''b''] \<and>
   ta_text (text_area (fst (state_of (on_directory_tree_file_selected demo_library ff_txt (started, formfeed_disk)))))
     = [CHR ''a'', CHR 0x0A, CHR ''b''] \<and>
   ta_text (text_area (fst (state_of (on_directory_tree_file_selected demo_library ff_txt (started, formfeed_disk)))))
     \<noteq> [CHR ''a'', CHR 0x0C, CHR ''b'']"
  by (simp add: selected_readable [OF read_formfeed_disk] read_formfeed_disk document_text_form_feed)

text \<open>
  C1 as amended: for every file whose content decodes as the text \<open>t\<close>, the selection handler
  returns, and in the state it leaves \<open>selected_file\<close> is the path, \<open>file_content\<close> is \<open>t\<close>, the
  text area is displayed, and the text area holds the text of the document built from \<open>t\<close>
  (the lines of \<open>t\<close> joined with its newline style); that is \<open>t\<close> itself whenever \<open>t\<close> has no
  line boundary other than the line feed.
\<close>

theorem selection_loads_readable_file:
  assumes "read_text fs p = Inr t"
  shows "returned (on_directory_tree_file_selected lib p (self, fs)) \<and>
         selected_file (fst (state_of (on_directory_tree_file_selected lib p (self, fs)))) = Some p \<and>
         file_content (fst (state_of (on_directory_tree_file_selected lib p (self, fs)))) = Some t \<and>
         display (text_area (fst (state_of (on_directory_tree_file_selected lib p (self, fs))))) \<and>
         ta_text (text_area (fst (state_of (on_directory_tree_file_selected lib p (self, fs))))) =
           document_text t \<and>
         ((\<forall>c \<in> set t. is_linebreak c \<longrightarrow> c = CHR 0x0A) \<longrightarrow>
            ta_text (text_area (fst (state_of (on_directory_tree_file_selected lib p (self, fs))))) = t)"
  by (simp add: selected_readable [OF assms] document_text_plain)

theorem selection_loads_readable_file_witness:
  "read_text demo_disk notes_py = Inr ''x = 1'' \<and>
   returned (on_directory_tree_file_selected demo_library notes_py (started, demo_disk)) \<and>
   selected_file (fst (state_of (on_directory_tree_file_selected demo_library notes_py (started, demo_disk))))
     = Some notes_py \<and>
   file_content (fst (state_of (on_directory_tree_file_selected demo_library notes_py (started, demo_disk))))
     = Some ''x = 1'' \<and>
   display (text_area (fst (state_of (on_directory_tree_file_selected demo_library notes_py (started, demo_disk))))) \<and>
   ta_text (text_area (fst (state_of (on_directory_tree_file_selected demo_library notes_py (started, demo_disk)))))
     = ''x = 1''"
proof -
  have plain: "\<forall>c \<in> set ''x = 1''. is_linebreak c \<longrightarrow> c = CHR 0x0A"
    by (simp add: is_linebreak_def)
  from selection_loads_readable_file [OF read_demo_disk(1), of demo_library started] plain
    read_demo_disk(1)
  show ?thesis
    by (simp add: document_text_x_1)
qed

section \<open>Selecting an unreadable file\<close>

text \<open>
  C2: for every file whose read raises, whatever the exception, the selection handler
  returns (it does not raise), and in the state it leaves \<open>selected_file\<close> is absent, the text
  area is hidden, its language is \<open>None\<close>, the subtitle is \<open>ERROR\<close>, and exactly one
  notification was appended to those emitted before: its message is the file's name followed
  by \<open>could not be loaded\<close>, its title \<open>File Error\<close>, its severity \<open>error\<close>.
\<close>

theorem selection_of_unreadable_file:
  assumes "read_text fs p = Inl e"
  shows "returned (on_directory_tree_file_selected lib p (self, fs)) \<and>
         selected_file (fst (state_of (on_directory_tree_file_selected lib p (self, fs)))) = None \<and>
         \<not> display (text_area (fst (state_of (on_directory_tree_file_selected lib p (self, fs))))) \<and>
         language (text_area (fst (state_of (on_directory_tree_file_selected lib p (self, fs))))) = None \<and>
         sub_title (fst (state_of (on_directory_tree_file_selected lib p (self, fs)))) = ''ERROR'' \<and>
         notifications (fst (state_of (on_directory_tree_file_selected lib p (self, fs)))) =
           notifications self @
             [\<lparr>message = path_name p @ '' could not be loaded'',
               title = ''File Error'',
               severity = ''error''\<rparr>]"
  by (simp add: selected_unreadable [OF assms])

theorem selection_of_unreadable_file_witness:
  "read_text demo_disk logo_png = Inl UnicodeDecodeError \<and>
   returned (on_directory_tree_file_selected demo_library logo_png (opened, demo_disk)) \<and>
   selected_file (fst (state_of (on_directory_tree_file_selected demo_library logo_png (opened, demo_disk))))
     = None \<and>
   \<not> display (text_area (fst (state_of (on_directory_tree_file_selected demo_library logo_png (opened, demo_disk))))) \<and>
   language (text_area (fst (state_of (on_directory_tree_file_selected demo_library logo_png (opened, demo_disk)))))
     = None \<and>
   sub_title (fst (state_of (on_directory_tree_file_selected demo_library logo_png (opened, demo_disk))))
     = ''ERROR'' \<and>
   notifications (fst (state_of (on_directory_tree_file_selected demo_library logo_png (opened, demo_disk)))) =
     [\<lparr>message = ''logo.png could not be loaded'', title = ''File Error'', severity = ''error''\<rparr>]"
proof -
  have "notifications opened = []"
    by (simp add: opened_def started_def init_def)
  with selection_of_unreadable_file [OF read_demo_disk(2), of demo_library opened]
    read_demo_disk(2)
  show ?thesis
    by (simp add: path_name_logo_png)
qed

text \<open>
  C6: for every path and every state the selection handler returns: no exception leaves
  it. When the read raises, whichever exception it is, the outcome is the same state reset
  with its one notification, and the exception is not part of it.
\<close>

theorem selection_never_raises:
  "returned (on_directory_tree_file_selected lib p (self, fs)) \<and>
   (\<forall>e. read_text fs p = Inl e \<longrightarrow>
      on_directory_tree_file_selected lib p (self, fs) =
        Returned
          (self\<lparr>selected_file := None,
                 sub_title := ''ERROR'',
                 text_area := (text_area self)\<lparr>display := False, language := None\<rparr>,
                 notifications :=
                   notifications self @
                     [\<lparr>message = path_name p @ '' could not be loaded'',
                       title = ''File Error'',
                       severity = ''error''\<rparr>]\<rparr>,
           fs))"
proof (cases "read_text fs p")
  case (Inl e)
  then show ?thesis
    by (simp add: selected_unreadable [OF Inl])
next
  case (Inr t)
  then show ?thesis
    by (simp add: selected_readable [OF Inr])
qed

theorem selection_never_raises_witness:
  "returned (on_directory_tree_file_selected demo_library logo_png (started, demo_disk)) \<and>
   read_text demo_disk logo_png = Inl UnicodeDecodeError \<and>
   on_directory_tree_file_selected demo_library logo_png (started, demo_disk) =
     Returned
       (started\<lparr>sub_title := ''ERROR'',
                notifications :=
                  [\<lparr>message = ''logo.png could not be loaded'',
                    title = ''File Error'',
                    severity = ''error''\<rparr>]\<rparr>,
        demo_disk)"
proof -
  have "text_area started = \<lparr>display = False, ta_text = [], language = None\<rparr>"
    and "notifications started = []" and "selected_file started = None"
    by (simp_all add: started_def init_def)
  with selection_never_raises [of demo_library logo_png started demo_disk] read_demo_disk(2)
  show ?thesis
    by (simp add: path_name_logo_png)
qed

text \<open>
  C10: on every failed load the text of the text area is what it was before the
  selection; of the widget's attributes only \<open>display\<close> and \<open>language\<close> are reset.
\<close>

theorem failed_load_keeps_buffer_text:
  assumes "read_text fs p = Inl e"
  shows "ta_text (text_area (fst (state_of (on_directory_tree_file_selected lib p (self, fs))))) =
           ta_text (text_area self) \<and>
         text_area (fst (state_of (on_directory_tree_file_selected lib p (self, fs)))) =
           (text_area self)\<lparr>display := False, language := None\<rparr>"
  by (simp add: selected_unreadable [OF assms])

theorem failed_load_keeps_buffer_text_witness:
  "read_text demo_disk logo_png = Inl UnicodeDecodeError \<and>
   ta_text (text_area (fst (state_of (on_directory_tree_file_selected demo_library logo_png (opened, demo_disk)))))
     = ''x = 1'' \<and>
   text_area (fst (state_of (on_directory_tree_file_selected demo_library logo_png (opened, demo_disk)))) =
     \<lparr>display = False, ta_text = ''x = 1'', language = None\<rparr>"
  using failed_load_keeps_buffer_text [OF read_demo_disk(2), of demo_library opened]
    read_demo_disk(2)
  by (simp add: opened_def)

section \<open>The language of the buffer\<close>

text \<open>
  C7: on every successful load of a path \<open>p\<close> with text \<open>t\<close>, the language of the text area
  is the lexer guessed for \<open>(p, t)\<close> when that lexer is one of the builtin languages and
  \<open>None\<close> otherwise; so it is always \<open>None\<close> or a member of the builtin languages.
\<close>

theorem language_after_load:
  assumes "read_text fs p = Inr t"
  shows "language (text_area (fst (state_of (on_directory_tree_file_selected lib p (self, fs))))) =
           (if guess_lexer lib (path_str p) t \<in> set (BUILTIN_LANGUAGES lib)
            then Some (guess_lexer lib (path_str p) t) else None) \<and>
         (language (text_area (fst (state_of (on_directory_tree_file_selected lib p (self, fs))))) = None \<or>
          (\<exists>l. l \<in> set (BUILTIN_LANGUAGES lib) \<and>
             language (text_area (fst (state_of (on_directory_tree_file_selected lib p (self, fs))))) =
               Some l))"
  by (simp add: selected_readable [OF assms])

theorem language_after_load_witness:
  "read_text demo_disk rules_mk = Inr ''all:'' \<and>
   guess_lexer demo_library (path_str rules_mk) ''all:'' = ''make'' \<and>
   ''make'' \<notin> set (BUILTIN_LANGUAGES demo_library) \<and>
   language (text_area (fst (state_of (on_directory_tree_file_selected demo_library rules_mk (opened, demo_disk)))))
     = None"
proof -
  have guess: "guess_lexer demo_library (path_str rules_mk) ''all:'' = ''make''"
    by (simp add: demo_library_def path_str_def rules_mk_def)
  have unknown: "''make'' \<notin> set (BUILTIN_LANGUAGES demo_library)"
    by (simp add: demo_library_def)
  from language_after_load [OF read_demo_disk(3), of demo_library opened] guess unknown
    read_demo_disk(3)
  show ?thesis
    by simp
qed

section \<open>Saving a modified buffer\<close>

text \<open>
  C5: in every state in which a file \<open>p\<close> is selected and the text of the buffer differs from
  \<open>file_content\<close>, a save whose write is not refused returns, and it has called
  \<^verbatim>\<open>write_text\<close> exactly once, on \<open>p\<close> with the whole buffer text; the content of \<open>p\<close> on disk
  is now that text and no other file changed; \<open>file_content\<close> is that text; \<open>selected_file\<close>
  is still \<open>p\<close>; and exactly one notification was appended, with title \<open>File Saved\<close> and
  the path's string as its message.
\<close>

theorem save_writes_modified_buffer:
  assumes "selected_file self = Some p"
    and "file_content self \<noteq> Some (ta_text (text_area self))"
    and "write_fault fs p (ta_text (text_area self)) = None"
  shows "returned (action_save (self, fs)) \<and>
         write_calls (snd (state_of (action_save (self, fs)))) =
           write_calls fs @ [(p, ta_text (text_area self))] \<and>
         files (snd (state_of (action_save (self, fs)))) =
           (files fs)(p := Text (ta_text (text_area self))) \<and>
         read_text (snd (state_of (action_save (self, fs)))) p = Inr (ta_text (text_area self)) \<and>
         file_content (fst (state_of (action_save (self, fs)))) = Some (ta_text (text_area self)) \<and>
         selected_file (fst (state_of (action_save (self, fs)))) = Some p \<and>
         notifications (fst (state_of (action_save (self, fs)))) =
           notifications self @
             [\<lparr>message = path_str p, title = ''File Saved'', severity = ''information''\<rparr>]"
  using assms(1) by (simp add: save_modified [OF assms] read_text_def)

text \<open>
  The witness is the edit-then-save scenario: \<^verbatim>\<open>notes.py\<close> is open with content \<open>x = 1\<close>, the
  buffer is edited to \<open>x = 2\<close>, then saved.
\<close>

theorem save_writes_modified_buffer_witness:
  "on_directory_tree_file_selected demo_library notes_py (started, demo_disk) =
     Returned (opened, demo_disk) \<and>
   file_content edited = Some ''x = 1'' \<and>
   ta_text (text_area edited) = ''x = 2'' \<and>
   returned (action_save (edited, demo_disk)) \<and>
   write_calls (snd (state_of (action_save (edited, demo_disk)))) = [(notes_py, ''x = 2'')] \<and>
   read_text (snd (state_of (action_save (edited, demo_disk)))) notes_py = Inr ''x = 2'' \<and>
   read_text (snd (state_of (action_save (edited, demo_disk)))) rules_mk = Inr ''all:'' \<and>
   file_content (fst (state_of (action_save (edited, demo_disk)))) = Some ''x = 2'' \<and>
   selected_file (fst (state_of (action_save (edited, demo_disk)))) = Some notes_py \<and>
   notifications (fst (state_of (action_save (edited, demo_disk)))) =
     [\<lparr>message = ''/home/notes.py'', title = ''File Saved'', severity = ''information''\<rparr>]"
proof -
  have sel: "selected_file edited = Some notes_py"
    by (simp add: edited_def opened_def)
  have modified: "file_content edited \<noteq> Some (ta_text (text_area edited))"
    by (simp add: edited_def opened_def)
  have allowed: "write_fault demo_disk notes_py (ta_text (text_area edited)) = None"
    by (simp add: demo_disk_def)
  have before: "notifications edited = []" "write_calls demo_disk = []"
    "file_content edited = Some ''x = 1''" "ta_text (text_area edited) = ''x = 2''"
    by (simp_all add: edited_def opened_def started_def init_def demo_disk_def)
  from save_writes_modified_buffer [OF sel modified allowed] before
    open_notes_py [OF read_demo_disk(1)] read_demo_disk(3)
  show ?thesis
    by (simp add: path_str_notes_py read_text_def demo_paths_distinct)
qed

section \<open>Saving an unmodified buffer\<close>

text \<open>A second save changes nothing when the first one returned.\<close>

lemma save_twice:
  "and_then (action_save (self, fs)) action_save = action_save (self, fs)"
proof (cases rule: save_cases [where self = self and fs = fs])
  case nothing
  then show ?thesis
    by (simp add: save_nothing_selected)
next
  case unmodified
  then show ?thesis
    by (simp add: save_unmodified)
next
  case (written p)
  then show ?thesis
    by (simp add: save_modified save_unmodified)
next
  case (refused p e left)
  then show ?thesis
    by (simp add: save_refused)
qed

text \<open>The calls of \<^verbatim>\<open>write_text\<close> one save adds: none, or one on the selected file.\<close>

lemma save_write_calls:
  "write_calls (snd (state_of (action_save (self, fs)))) = write_calls fs \<or>
   (\<exists>p. selected_file self = Some p \<and>
      write_calls (snd (state_of (action_save (self, fs)))) =
        write_calls fs @ [(p, ta_text (text_area self))])"
proof (cases rule: save_cases [where self = self and fs = fs])
  case nothing
  then show ?thesis
    by (simp add: save_nothing_selected)
next
  case unmodified
  then show ?thesis
    by (simp add: save_unmodified)
next
  case (written p)
  then show ?thesis
    by (simp add: save_modified)
next
  case (refused p e left)
  then show ?thesis
    by (simp add: save_refused)
qed

text \<open>
  Even when the caller goes on after a refused write, a second save with no edit in between
  leaves the files as the first one left them.
\<close>

lemma save_again_keeps_files:
  "files (snd (state_of (action_save (state_of (action_save (self, fs)))))) =
     files (snd (state_of (action_save (self, fs))))"
proof (cases rule: save_cases [where self = self and fs = fs])
  case nothing
  then show ?thesis
    by (simp add: save_nothing_selected)
next
  case unmodified
  then show ?thesis
    by (simp add: save_unmodified)
next
  case (written p)
  then show ?thesis
    by (simp add: save_modified save_unmodified)
next
  case (refused p e left)
  then show ?thesis
    by (cases left) (simp_all add: save_refused)
qed

text \<open>
  C3: whenever the text of the buffer equals \<open>file_content\<close>, \<open>action_save\<close> returns the state
  it was given (\<open>save_unmodified\<close>), and a second save in succession changes nothing
  (\<open>save_twice\<close>). The round trip the claim draws from this does not hold on the code: the
  handler stores the file's text in \<open>file_content\<close> and the document's text in the buffer, and
  \<open>action_save\<close> compares the two. For the file that holds \<open>a\<close>, a form feed and \<open>b\<close>, a
  selection followed at once by a save, with no edit, calls \<^verbatim>\<open>write_text\<close>, replaces the
  file's content by \<open>a\<close>, a line feed and \<open>b\<close>, and emits a \<open>File Saved\<close> notification, although
  the docstring of \<^verbatim>\<open>action_save\<close> says the file is saved if it has been modified.
\<close>

theorem unedited_file_is_rewritten:
  "read_text formfeed_disk ff_txt = Inr [CHR ''a'', CHR 0x0C, CHR ''b''] \<and>
   and_then (on_directory_tree_file_selected demo_library ff_txt (started, formfeed_disk)) action_save =
     Returned
       (started\<lparr>sub_title := ''/home/ff.txt'',
                text_area :=
                  \<lparr>display = True, ta_text = [CHR ''a'', CHR 0x0A, CHR ''b''], language = None\<rparr>,
                selected_file := Some ff_txt,
                file_content := Some [CHR ''a'', CHR 0x0A, CHR ''b''],
                notifications :=
                  [\<lparr>message = ''/home/ff.txt'', title = ''File Saved'', severity = ''information''\<rparr>]\<rparr>,
        formfeed_disk
          \<lparr>write_calls := [(ff_txt, [CHR ''a'', CHR 0x0A, CHR ''b''])],
           files := (files formfeed_disk)(ff_txt := Text [CHR ''a'', CHR 0x0A, CHR ''b''])\<rparr>)"
proof -
  let ?loaded =
    "started\<lparr>selected_file := Some ff_txt,
             sub_title := ''/home/ff.txt'',
             file_content := Some [CHR ''a'', CHR 0x0C, CHR ''b''],
             text_area :=
               \<lparr>display = True, ta_text = [CHR ''a'', CHR 0x0A, CHR ''b''], language = None\<rparr>\<rparr>"
  have load: "on_directory_tree_file_selected demo_library ff_txt (started, formfeed_disk) =
      Returned (?loaded, formfeed_disk)"
    using selected_readable [OF read_formfeed_disk, of demo_library started]
    by (simp add: path_str_ff_txt document_text_form_feed demo_library_def started_def init_def)
  have "selected_file ?loaded = Some ff_txt"
    and "file_content ?loaded \<noteq> Some (ta_text (text_area ?loaded))"
    and "write_fault formfeed_disk ff_txt (ta_text (text_area ?loaded)) = None"
    by (simp_all add: formfeed_disk_def demo_disk_def)
  from save_modified [OF this]
  have "action_save (?loaded, formfeed_disk) =
      Returned
        (?loaded\<lparr>file_content := Some [CHR ''a'', CHR 0x0A, CHR ''b''],
                 notifications :=
                   [\<lparr>message = ''/home/ff.txt'', title = ''File Saved'', severity = ''information''\<rparr>]\<rparr>,
         formfeed_disk
           \<lparr>write_calls := [(ff_txt, [CHR ''a'', CHR 0x0A, CHR ''b''])],
            files := (files formfeed_disk)(ff_txt := Text [CHR ''a'', CHR 0x0A, CHR ''b''])\<rparr>)"
    by (simp add: path_str_ff_txt started_def init_def formfeed_disk_def demo_disk_def)
  with load read_formfeed_disk show ?thesis
    by simp
qed

section \<open>The lifecycle of the selected file and the loaded content\<close>

text \<open>
  C4 says that a failed load clears both \<open>selected_file\<close> and \<open>file_content\<close>. The
  \<^verbatim>\<open>except\<close> branch assigns \<^verbatim>\<open>self.selected_file = None\<close> and never assigns
  \<^verbatim>\<open>self.file_content\<close>: with \<^verbatim>\<open>notes.py\<close> open, selecting the undecodable \<^verbatim>\<open>logo.png\<close> leaves
  \<open>file_content\<close> at the text of \<^verbatim>\<open>notes.py\<close>.
\<close>

theorem failed_load_clears_content_counterexample:
  "read_text demo_disk logo_png = Inl UnicodeDecodeError \<and>
   file_content opened = Some ''x = 1'' \<and>
   selected_file (fst (state_of (on_directory_tree_file_selected demo_library logo_png (opened, demo_disk))))
     = None \<and>
   file_content (fst (state_of (on_directory_tree_file_selected demo_library logo_png (opened, demo_disk))))
     = Some ''x = 1'' \<and>
   file_content (fst (state_of (on_directory_tree_file_selected demo_library logo_png (opened, demo_disk))))
     \<noteq> None"
  by (simp add: selected_unreadable [OF read_demo_disk(2)] read_demo_disk(2) opened_def)

text \<open>
  C4 as amended: on every failed load \<open>selected_file\<close> is cleared and \<open>file_content\<close> is left
  as it was; on every successful load \<open>selected_file\<close> becomes the path and \<open>file_content\<close> its
  text, together; on every save that returns with a file selected, \<open>file_content\<close> is the
  text of the buffer and \<open>selected_file\<close> is unchanged.
\<close>

theorem selection_and_content_lifecycle:
  "(\<forall>e. read_text fs p = Inl e \<longrightarrow>
      selected_file (fst (state_of (on_directory_tree_file_selected lib p (self, fs)))) = None \<and>
      file_content (fst (state_of (on_directory_tree_file_selected lib p (self, fs)))) =
        file_content self) \<and>
   (\<forall>t. read_text fs p = Inr t \<longrightarrow>
      selected_file (fst (state_of (on_directory_tree_file_selected lib p (self, fs)))) = Some p \<and>
      file_content (fst (state_of (on_directory_tree_file_selected lib p (self, fs)))) = Some t) \<and>
   (\<forall>q. selected_file self = Some q \<and> returned (action_save (self, fs)) \<longrightarrow>
      selected_file (fst (state_of (action_save (self, fs)))) = Some q \<and>
      file_content (fst (state_of (action_save (self, fs)))) = Some (ta_text (text_area self)))"
proof -
  have saved: "selected_file (fst (state_of (action_save (self, fs)))) = Some q \<and>
      file_content (fst (state_of (action_save (self, fs)))) = Some (ta_text (text_area self))"
    if "selected_file self = Some q" and "returned (action_save (self, fs))" for q
  proof (cases rule: save_cases [where self = self and fs = fs])
    case nothing
    with that show ?thesis
      by simp
  next
    case unmodified
    with that show ?thesis
      by (simp add: save_unmodified)
  next
    case (written p)
    with that show ?thesis
      by (simp add: save_modified)
  next
    case (refused p e left)
    with that show ?thesis
      by (simp add: save_refused)
  qed
  then show ?thesis
    by (simp add: selected_unreadable selected_readable)
qed

theorem selection_and_content_lifecycle_witness:
  "read_text demo_disk logo_png = Inl UnicodeDecodeError \<and>
   selected_file (fst (state_of (on_directory_tree_file_selected demo_library logo_png (opened, demo_disk))))
     = None \<and>
   file_content (fst (state_of (on_directory_tree_file_selected demo_library logo_png (opened, demo_disk))))
     = Some ''x = 1'' \<and>
   read_text demo_disk notes_py = Inr ''x = 1'' \<and>
   selected_file (fst (state_of (on_directory_tree_file_selected demo_library notes_py (started, demo_disk))))
     = Some notes_py \<and>
   file_content (fst (state_of (on_directory_tree_file_selected demo_library notes_py (started, demo_disk))))
     = Some ''x = 1'' \<and>
   selected_file edited = Some notes_py \<and>
   returned (action_save (edited, demo_disk)) \<and>
   selected_file (fst (state_of (action_save (edited, demo_disk)))) = Some notes_py \<and>
   file_content (fst (state_of (action_save (edited, demo_disk)))) = Some ''x = 2''"
proof -
  have sel: "selected_file edited = Some notes_py"
    and modified: "file_content edited \<noteq> Some (ta_text (text_area edited))"
    and buffer: "ta_text (text_area edited) = ''x = 2''"
    and old: "file_content opened = Some ''x = 1''"
    by (simp_all add: edited_def opened_def)
  have allowed: "write_fault demo_disk notes_py (ta_text (text_area edited)) = None"
    by (simp add: demo_disk_def)
  have ret: "returned (action_save (edited, demo_disk))"
    by (simp add: save_modified [OF sel modified allowed])
  from selection_and_content_lifecycle [of demo_disk logo_png demo_library opened]
    read_demo_disk(2) old
  have failed: "selected_file (fst (state_of
        (on_directory_tree_file_selected demo_library logo_png (opened, demo_disk)))) = None \<and>
      file_content (fst (state_of
        (on_directory_tree_file_selected demo_library logo_png (opened, demo_disk)))) = Some ''x = 1''"
    by simp
  from selection_and_content_lifecycle [of demo_disk notes_py demo_library started]
    read_demo_disk(1)
  have loaded: "selected_file (fst (state_of
        (on_directory_tree_file_selected demo_library notes_py (started, demo_disk)))) = Some notes_py \<and>
      file_content (fst (state_of
        (on_directory_tree_file_selected demo_library notes_py (started, demo_disk)))) = Some ''x = 1''"
    by simp
  from selection_and_content_lifecycle [of demo_disk notes_py demo_library edited] sel ret buffer
  have saved: "selected_file (fst (state_of (action_save (edited, demo_disk)))) = Some notes_py \<and>
      file_content (fst (state_of (action_save (edited, demo_disk)))) = Some ''x = 2''"
    by simp
  from failed loaded saved sel ret read_demo_disk(1,2) show ?thesis
    by simp
qed

section \<open>What is written to disk\<close>

text \<open>The toggle changes the flag and the CSS class, nothing else.\<close>

lemma toggle_files:
  "action_toggle_files (self, fs) =
     Returned
       (self\<lparr>show_tree := \<not> show_tree self,
              classes := (if show_tree self then classes self - {''-show-tree''}
                          else insert ''-show-tree'' (classes self))\<rparr>,
        fs)"
  by (simp add: action_toggle_files.simps watch_show_tree_def Let_def)

text \<open>A save leaves every file other than the selected one as it was.\<close>

lemma save_other_files:
  assumes "selected_file self \<noteq> Some q"
  shows "files (snd (state_of (action_save (self, fs)))) q = files fs q"
proof (cases rule: save_cases [where self = self and fs = fs])
  case nothing
  then show ?thesis
    by (simp add: save_nothing_selected)
next
  case unmodified
  then show ?thesis
    by (simp add: save_unmodified)
next
  case (written p)
  with assms show ?thesis
    by (auto simp add: save_modified)
next
  case (refused p e left)
  with assms show ?thesis
    by (auto simp add: save_refused)
qed

lemma save_keeps_faults:
  "write_fault (snd (state_of (action_save (self, fs)))) = write_fault fs"
proof (cases rule: save_cases [where self = self and fs = fs])
  case nothing
  then show ?thesis
    by (simp add: save_nothing_selected)
next
  case unmodified
  then show ?thesis
    by (simp add: save_unmodified)
next
  case (written p)
  then show ?thesis
    by (simp add: save_modified)
next
  case (refused p e left)
  then show ?thesis
    by (simp add: save_refused)
qed

text \<open>
  C9: the selection handler and the toggle leave the file system exactly as it was (no file
  changed, no call of \<^verbatim>\<open>write_text\<close>). A save leaves every file other than the selected one
  as it was, and the calls of \<^verbatim>\<open>write_text\<close> it adds are none or one, on the selected file with
  the text of the buffer.
\<close>

theorem only_save_writes_the_selected_file:
  "snd (state_of (on_directory_tree_file_selected lib p (self, fs))) = fs \<and>
   snd (state_of (action_toggle_files (self, fs))) = fs \<and>
   (\<forall>q. selected_file self \<noteq> Some q \<longrightarrow>
      files (snd (state_of (action_save (self, fs)))) q = files fs q) \<and>
   (write_calls (snd (state_of (action_save (self, fs)))) = write_calls fs \<or>
    (\<exists>q. selected_file self = Some q \<and>
       write_calls (snd (state_of (action_save (self, fs)))) =
         write_calls fs @ [(q, ta_text (text_area self))])) \<and>
   write_fault (snd (state_of (action_save (self, fs)))) = write_fault fs"
proof -
  have "snd (state_of (on_directory_tree_file_selected lib p (self, fs))) = fs"
    by (cases "read_text fs p") (simp_all add: selected_unreadable selected_readable)
  moreover have "snd (state_of (action_toggle_files (self, fs))) = fs"
    by (simp add: toggle_files)
  ultimately show ?thesis
    using save_write_calls [of self fs]
    by (simp add: save_other_files save_keeps_faults)
qed

theorem only_save_writes_the_selected_file_witness:
  "snd (state_of (on_directory_tree_file_selected demo_library notes_py (edited, demo_disk))) = demo_disk \<and>
   snd (state_of (action_toggle_files (edited, demo_disk))) = demo_disk \<and>
   selected_file edited = Some notes_py \<and>
   files (snd (state_of (action_save (edited, demo_disk)))) rules_mk = Text ''all:'' \<and>
   files (snd (state_of (action_save (edited, demo_disk)))) logo_png = Unreadable UnicodeDecodeError \<and>
   write_calls (snd (state_of (action_save (edited, demo_disk)))) \<in>
     {[], [(notes_py, ''x = 2'')]}"
proof -
  have sel: "selected_file edited = Some notes_py"
    and buffer: "ta_text (text_area edited) = ''x = 2''"
    by (simp_all add: edited_def opened_def)
  have disk: "files demo_disk rules_mk = Text ''all:''"
    "files demo_disk logo_png = Unreadable UnicodeDecodeError"
    "write_calls demo_disk = []"
    by (simp_all add: demo_disk_def demo_paths_distinct)
  from only_save_writes_the_selected_file [of demo_library notes_py edited demo_disk]
    sel buffer disk demo_paths_distinct
  show ?thesis
    by auto
qed

end
